theory Spec2Isabelle
  imports Main "HOL-Library.Word"
begin

section \<open>Data model of the scene manager\<close>

text \<open>
  \<^verbatim>\<open>vtkWasmSceneManager\<close> drives native objects through 32-bit identifiers
  (\<^verbatim>\<open>vtkTypeUInt32\<close>). Observer tags and event ids are \<^verbatim>\<open>unsigned long\<close> in the
  source; no operation of the scene manager computes with them, so they are natural
  numbers here. An external callback (\<^verbatim>\<open>ObserverCallbackF\<close>) and an interactor are
  opaque to the scene manager and are named by a handle.
\<close>

type_synonym vtkTypeUInt32 = "32 word"
type_synonym event_id = nat
type_synonym observer_tag = nat
type_synonym ObserverCallbackF = nat
type_synonym interactor_ref = nat

text \<open>
  What the scene manager does to the world outside itself, in the order it does it: the
  calls it makes on native objects, the two lines it writes to \<^verbatim>\<open>std::cout\<close>, and the
  calls of external callbacks its bridge makes. A render window or renderer that
  receives a call is named by the identifier it was reached through, an interactor by
  the reference the render window holds. Width and height are passed on as they come,
  so they are plain integers. What a native call does inside the native object is
  not modelled: \<open>Native_Start\<close> stands for the whole run of the interactor's loop, up
  to its return.
\<close>

datatype effect =
    Native_UpdateSize interactor_ref int int
  | Native_Render vtkTypeUInt32
  | Native_ResetCamera vtkTypeUInt32
  | Cout_Started vtkTypeUInt32 interactor_ref
  | Native_Start interactor_ref
  | Cout_Stopping vtkTypeUInt32 interactor_ref
  | Native_TerminateApp interactor_ref
  | ExternalCallback ObserverCallbackF vtkTypeUInt32 string

text \<open>
  The classes the source casts to, flattened: \<open>vtkObjectBase\<close> stands for a registered
  object that is not a \<^verbatim>\<open>vtkObject\<close>, \<open>vtkObject\<close> for a \<^verbatim>\<open>vtkObject\<close> that is neither
  a renderer nor a render window.
\<close>

datatype vtkClass = vtkObjectBase | vtkObject | vtkRenderer | vtkRenderWindow

text \<open>\<^verbatim>\<open>struct CallbackBridge { ObserverCallbackF f; vtkTypeUInt32 SenderId; }\<close>\<close>

record CallbackBridge =
  bridge_f :: ObserverCallbackF
  SenderId :: vtkTypeUInt32

text \<open>
  One subscription slot of an object: the tag the subscription was given, the event it
  is registered under, and the client data of its \<^verbatim>\<open>vtkCallbackCommand\<close>. The slot owns
  the bridge: removing the slot is the bridge's deletion.
\<close>

record observer =
  Tag :: observer_tag
  Event :: event_id
  ClientData :: CallbackBridge

record vtkInstance =
  ClassOf :: vtkClass
  Interactor :: "interactor_ref option"
  Observers :: "observer list"
  Count :: observer_tag

text \<open>
  The state: the object manager's table, the static member
  \<^verbatim>\<open>vtkRenderWindowInteractor::InteractorManagesTheEventLoop\<close>, and the effects so far.
\<close>

record scene =
  Objects :: "vtkTypeUInt32 \<rightharpoonup> vtkInstance"
  InteractorManagesTheEventLoop :: bool
  Effects :: "effect list"

text \<open>
  The event table of \<^verbatim>\<open>vtkCommand\<close> is not part of the sources at hand; both of its
  conversions are parameters of the model.
\<close>

record event_table =
  GetEventIdFromString :: "string \<Rightarrow> event_id"
  GetStringFromEventId :: "event_id \<Rightarrow> string"

text \<open>
  A call through a null pointer is the one fault the source can raise; the scene manager
  has no exceptions of its own.
\<close>

datatype fault = NullPointerDereference

section \<open>Collaborators\<close>

text \<open>
  Modelled from the spec: \<^verbatim>\<open>vtkObjectManager::GetObjectAtId\<close> is missing from the
  sources. The spec's \<^verbatim>\<open>resolve(id) -> optional<object-ref>\<close> "returns the live object
  or a miss": a lookup in the identifier table.
\<close>

definition GetObjectAtId :: "scene \<Rightarrow> vtkTypeUInt32 \<Rightarrow> vtkInstance option" where
  "GetObjectAtId s identifier = Objects s identifier"

text \<open>
  Modelled from the spec: the type macros behind \<^verbatim>\<open>SafeDownCast\<close> are missing from the
  sources. The spec's capability check "checks the resolved object exposes the required
  capability; on capability mismatch" the operation misses. \<open>IsA c t\<close>: an object of
  class \<open>c\<close> can be cast to \<open>t\<close>.
\<close>

fun IsA :: "vtkClass \<Rightarrow> vtkClass \<Rightarrow> bool" where
  "IsA c vtkObjectBase = True"
| "IsA c vtkObject = (c \<noteq> vtkObjectBase)"
| "IsA c vtkRenderer = (c = vtkRenderer)"
| "IsA c vtkRenderWindow = (c = vtkRenderWindow)"

definition SafeDownCast :: "vtkClass \<Rightarrow> vtkInstance option \<Rightarrow> vtkInstance option" where
  "SafeDownCast t p =
     (case p of
        None \<Rightarrow> None
      | Some obj \<Rightarrow> if IsA (ClassOf obj) t then Some obj else None)"

text \<open>
  Modelled from the spec: \<^verbatim>\<open>vtkRenderWindow::GetInteractor\<close> is missing from the sources.
  A render window has "an attached interactor" or none; the getter returns it, or null.
\<close>

definition GetInteractor :: "vtkInstance \<Rightarrow> interactor_ref option" where
  "GetInteractor renderWindow = Interactor renderWindow"

text \<open>Appending one effect to the log.\<close>

definition emit :: "effect \<Rightarrow> scene \<Rightarrow> scene" where
  "emit e s = s\<lparr>Effects := Effects s @ [e]\<rparr>"

text \<open>
  Modelled from the spec: \<^verbatim>\<open>vtkObject::AddObserver\<close>, \<^verbatim>\<open>vtkObject::RemoveObserver\<close>
  and \<^verbatim>\<open>vtkObject::InvokeEvent\<close> are missing from the sources. The spec asks of any
  object "a generic subscribe/unsubscribe-by-name mechanism returning a stable token and
  guaranteeing at-most-one cleanup invocation per subscription"; registering the same
  pair twice "yields two independent tokens and two independent invocations per event".
  A subscription takes the object's next tag and a slot under the event's id; removing
  a tag drops the slots that carry it.
\<close>

definition vtkObject_AddObserver ::
  "event_table \<Rightarrow> vtkInstance \<Rightarrow> string \<Rightarrow> CallbackBridge \<Rightarrow> observer_tag \<times> vtkInstance" where
  "vtkObject_AddObserver T obj event clientData =
     (Count obj,
      obj\<lparr>Observers := Observers obj @
             [\<lparr>Tag = Count obj, Event = GetEventIdFromString T event, ClientData = clientData\<rparr>],
          Count := Suc (Count obj)\<rparr>)"

definition vtkObject_RemoveObserver :: "vtkInstance \<Rightarrow> observer_tag \<Rightarrow> vtkInstance" where
  "vtkObject_RemoveObserver obj tag =
     obj\<lparr>Observers := filter (\<lambda>ob. Tag ob \<noteq> tag) (Observers obj)\<rparr>"

section \<open>The operations of vtkWasmSceneManager\<close>

definition SetSize :: "scene \<Rightarrow> vtkTypeUInt32 \<Rightarrow> int \<Rightarrow> int \<Rightarrow> fault + bool \<times> scene" where
  "SetSize s identifier width height =
     (let object = GetObjectAtId s identifier in
      case SafeDownCast vtkRenderWindow object of
        Some renderWindow \<Rightarrow>
          (case GetInteractor renderWindow of
             Some iren \<Rightarrow> Inr (True, emit (Native_UpdateSize iren width height) s)
           | None \<Rightarrow> Inr (False, s))
      | None \<Rightarrow> Inr (False, s))"

definition Render :: "scene \<Rightarrow> vtkTypeUInt32 \<Rightarrow> fault + bool \<times> scene" where
  "Render s identifier =
     (let object = GetObjectAtId s identifier in
      case SafeDownCast vtkRenderWindow object of
        Some renderWindow \<Rightarrow> Inr (True, emit (Native_Render identifier) s)
      | None \<Rightarrow> Inr (False, s))"

definition ResetCamera :: "scene \<Rightarrow> vtkTypeUInt32 \<Rightarrow> fault + bool \<times> scene" where
  "ResetCamera s identifier =
     (let object = GetObjectAtId s identifier in
      case SafeDownCast vtkRenderer object of
        Some renderer \<Rightarrow> Inr (True, emit (Native_ResetCamera identifier) s)
      | None \<Rightarrow> Inr (False, s))"

text \<open>
  The assignment to the static flag is the first statement of \<^verbatim>\<open>StartEventLoop\<close>. In
  both event-loop operations \<^verbatim>\<open>interactor->GetObjectDescription()\<close> is called on
  whatever \<^verbatim>\<open>GetInteractor()\<close> returned, with no test for null: on a render window
  without an interactor the call goes through a null pointer.
\<close>

definition StartEventLoop :: "scene \<Rightarrow> vtkTypeUInt32 \<Rightarrow> fault + bool \<times> scene" where
  "StartEventLoop s0 identifier =
     (let s = s0\<lparr>InteractorManagesTheEventLoop := False\<rparr>;
          object = GetObjectAtId s identifier in
      case SafeDownCast vtkRenderWindow object of
        Some renderWindow \<Rightarrow>
          (case GetInteractor renderWindow of
             None \<Rightarrow> Inl NullPointerDereference
           | Some interactor \<Rightarrow>
               Inr (True,
                 emit (Native_Start interactor) (emit (Cout_Started identifier interactor) s)))
      | None \<Rightarrow> Inr (False, s))"

definition StopEventLoop :: "scene \<Rightarrow> vtkTypeUInt32 \<Rightarrow> fault + bool \<times> scene" where
  "StopEventLoop s identifier =
     (let object = GetObjectAtId s identifier in
      case SafeDownCast vtkRenderWindow object of
        Some renderWindow \<Rightarrow>
          (case GetInteractor renderWindow of
             None \<Rightarrow> Inl NullPointerDereference
           | Some interactor \<Rightarrow>
               Inr (True,
                 emit (Native_TerminateApp interactor)
                   (emit (Cout_Stopping identifier interactor) s)))
      | None \<Rightarrow> Inr (False, s))"

text \<open>
  The callback the source installs with \<^verbatim>\<open>SetCallback\<close>: it forwards the sender's
  identifier and the name of the event that fired to the external callback.
\<close>

definition bridge_callback :: "event_table \<Rightarrow> event_id \<Rightarrow> CallbackBridge \<Rightarrow> effect" where
  "bridge_callback T eid bridge =
     ExternalCallback (bridge_f bridge) (SenderId bridge) (GetStringFromEventId T eid)"

definition AddObserver ::
  "event_table \<Rightarrow> scene \<Rightarrow> vtkTypeUInt32 \<Rightarrow> string \<Rightarrow> ObserverCallbackF
     \<Rightarrow> fault + observer_tag \<times> scene" where
  "AddObserver T s identifier eventName callback =
     (case SafeDownCast vtkObject (GetObjectAtId s identifier) of
        None \<Rightarrow> Inr (0, s)
      | Some object \<Rightarrow>
          (let clientData = \<lparr>bridge_f = callback, SenderId = identifier\<rparr>;
               (tag, object') = vtkObject_AddObserver T object eventName clientData
           in Inr (tag, s\<lparr>Objects := (Objects s)(identifier \<mapsto> object')\<rparr>)))"

definition RemoveObserver ::
  "scene \<Rightarrow> vtkTypeUInt32 \<Rightarrow> observer_tag \<Rightarrow> fault + bool \<times> scene" where
  "RemoveObserver s identifier tag =
     (case SafeDownCast vtkObject (GetObjectAtId s identifier) of
        None \<Rightarrow> Inr (False, s)
      | Some object \<Rightarrow>
          Inr (True,
            s\<lparr>Objects := (Objects s)(identifier \<mapsto> vtkObject_RemoveObserver object tag)\<rparr>))"

text \<open>
  Modelled from the spec: a native firing of event \<open>eid\<close> on the object registered
  under \<open>identifier\<close> (\<^verbatim>\<open>vtkObject::InvokeEvent\<close>, missing from the sources). "On every
  native event firing, the bridge invokes the external callback", "synchronously on the
  thread that raised the native event -- no queuing, no reordering": every slot
  registered under the event runs its callback before the firing returns.
\<close>

definition fired :: "event_table \<Rightarrow> scene \<Rightarrow> vtkTypeUInt32 \<Rightarrow> event_id \<Rightarrow> effect list" where
  "fired T s identifier eid =
     (case SafeDownCast vtkObject (GetObjectAtId s identifier) of
        None \<Rightarrow> []
      | Some object \<Rightarrow>
          map (\<lambda>ob. bridge_callback T eid (ClientData ob))
            (filter (\<lambda>ob. Event ob = eid) (Observers object)))"

definition InvokeEvent :: "event_table \<Rightarrow> scene \<Rightarrow> vtkTypeUInt32 \<Rightarrow> event_id \<Rightarrow> scene" where
  "InvokeEvent T s identifier eid = s\<lparr>Effects := Effects s @ fired T s identifier eid\<rparr>"

section \<open>A sample scene\<close>

text \<open>
  Identifier 1 names a render window with interactor 7, 2 a render window with no
  interactor, 3 a renderer, 4 an object that is not a \<^verbatim>\<open>vtkObject\<close>; nothing else is
  registered. The global flag is set.
\<close>

definition new_instance :: "vtkClass \<Rightarrow> interactor_ref option \<Rightarrow> vtkInstance" where
  "new_instance c iren = \<lparr>ClassOf = c, Interactor = iren, Observers = [], Count = 1\<rparr>"

definition sample_scene :: scene where
  "sample_scene =
     \<lparr>Objects = [1 \<mapsto> new_instance vtkRenderWindow (Some 7),
                 2 \<mapsto> new_instance vtkRenderWindow None,
                 3 \<mapsto> new_instance vtkRenderer None,
                 4 \<mapsto> new_instance vtkObjectBase None],
      InteractorManagesTheEventLoop = True,
      Effects = []\<rparr>"

definition sample_events :: event_table where
  "sample_events =
     \<lparr>GetEventIdFromString = (\<lambda>name. if name = ''StartEvent'' then 3
                                      else if name = ''EndEvent'' then 4 else 0),
      GetStringFromEventId = (\<lambda>eid. if eid = 3 then ''StartEvent''
                                     else if eid = 4 then ''EndEvent'' else ''NoEvent'')\<rparr>"

text \<open>
  Tags are issued from the object's counter, which starts at 1: every tag in use is below
  the counter. This is the state every object is in when its subscriptions were all made
  through \<open>vtkObject_AddObserver\<close>.
\<close>

definition tags_fresh :: "vtkInstance \<Rightarrow> bool" where
  "tags_fresh obj = (0 < Count obj \<and> list_all (\<lambda>ob. Tag ob < Count obj) (Observers obj))"

text \<open>
  The sample scene after \<^verbatim>\<open>AddObserver(1, "StartEvent", 11)\<close>, and after the removal of
  the tag that call returned.
\<close>

definition sample_subscribed :: scene where
  "sample_subscribed =
     sample_scene\<lparr>Objects := (Objects sample_scene)
       (1 \<mapsto> \<lparr>ClassOf = vtkRenderWindow, Interactor = Some 7,
              Observers = [\<lparr>Tag = 1, Event = 3,
                            ClientData = \<lparr>bridge_f = 11, SenderId = 1\<rparr>\<rparr>],
              Count = 2\<rparr>)\<rparr>"

definition sample_unsubscribed :: scene where
  "sample_unsubscribed =
     sample_scene\<lparr>Objects := (Objects sample_scene)
       (1 \<mapsto> \<lparr>ClassOf = vtkRenderWindow, Interactor = Some 7, Observers = [], Count = 2\<rparr>)\<rparr>"

section \<open>vtkGLTFTexture\<close>

text \<open>
  The sampler's enumerations are declared in \<^verbatim>\<open>vtkGLTFDocumentLoader.h\<close>, which is not
  part of the sources at hand; they are the glTF filter and wrap modes. The texture is
  the part of \<^verbatim>\<open>vtkTexture\<close> that \<^verbatim>\<open>GetVTKTexture\<close> sets.
\<close>

datatype FilterType =
    NEAREST | LINEAR | NEAREST_MIPMAP_NEAREST | LINEAR_MIPMAP_NEAREST
  | NEAREST_MIPMAP_LINEAR | LINEAR_MIPMAP_LINEAR

datatype WrapType = CLAMP_TO_EDGE | MIRRORED_REPEAT | REPEAT

record sampler =
  MagFilter :: FilterType
  MinFilter :: FilterType
  WrapS :: WrapType
  WrapT :: WrapType

type_synonym image_ref = nat

record vtkGLTFTexture =
  Sampler :: sampler
  Image :: "image_ref option"

datatype color_mode =
    VTK_COLOR_MODE_DEFAULT | VTK_COLOR_MODE_MAP_SCALARS | VTK_COLOR_MODE_DIRECT_SCALARS

datatype blending_mode =
    VTK_TEXTURE_BLENDING_MODE_NONE | VTK_TEXTURE_BLENDING_MODE_REPLACE
  | VTK_TEXTURE_BLENDING_MODE_MODULATE | VTK_TEXTURE_BLENDING_MODE_ADD
  | VTK_TEXTURE_BLENDING_MODE_ADD_SIGNED | VTK_TEXTURE_BLENDING_MODE_INTERPOLATE
  | VTK_TEXTURE_BLENDING_MODE_SUBTRACT

record vtkTexture =
  ColorMode :: color_mode
  BlendingMode :: blending_mode
  Mipmap :: bool
  Repeat :: bool
  EdgeClamp :: bool
  Interpolate :: bool
  InputData :: "image_ref option"

text \<open>
  \<open>fresh\<close> is the texture \<^verbatim>\<open>vtkNew<vtkTexture>\<close> constructs (the constructor is not
  part of the sources at hand). The result is the texture together with the warnings
  the call logged.
\<close>

definition GetVTKTexture :: "vtkTexture \<Rightarrow> vtkGLTFTexture \<Rightarrow> vtkTexture \<times> string list" where
  "GetVTKTexture fresh this =
     (let texture = fresh\<lparr>ColorMode := VTK_COLOR_MODE_DIRECT_SCALARS\<rparr>;
          texture = texture\<lparr>BlendingMode := VTK_TEXTURE_BLENDING_MODE_MODULATE\<rparr>;
          texture =
            (if MinFilter (Sampler this) = NEAREST \<or> MinFilter (Sampler this) = LINEAR
             then texture\<lparr>Mipmap := False\<rparr>
             else texture\<lparr>Mipmap := True\<rparr>);
          (texture, warnings) =
            (if WrapS (Sampler this) = CLAMP_TO_EDGE \<or> WrapT (Sampler this) = CLAMP_TO_EDGE
             then (texture\<lparr>Repeat := False, EdgeClamp := True\<rparr>, [])
             else if WrapS (Sampler this) = REPEAT \<or> WrapT (Sampler this) = REPEAT
             then (texture\<lparr>Repeat := True, EdgeClamp := False\<rparr>, [])
             else (texture, [''Mirrored texture wrapping is not supported!'']));
          texture =
            (if MinFilter (Sampler this) = LINEAR \<or>
                MinFilter (Sampler this) = LINEAR_MIPMAP_NEAREST \<or>
                MinFilter (Sampler this) = NEAREST_MIPMAP_LINEAR \<or>
                MinFilter (Sampler this) = LINEAR_MIPMAP_LINEAR \<or>
                MagFilter (Sampler this) = LINEAR \<or>
                MagFilter (Sampler this) = LINEAR_MIPMAP_NEAREST \<or>
                MagFilter (Sampler this) = NEAREST_MIPMAP_LINEAR \<or>
                MagFilter (Sampler this) = LINEAR_MIPMAP_LINEAR
             then texture\<lparr>Interpolate := True\<rparr>
             else texture);
          texture = texture\<lparr>InputData := Image this\<rparr>
      in (texture, warnings))"

definition sample_fresh_texture :: vtkTexture where
  "sample_fresh_texture =
     \<lparr>ColorMode = VTK_COLOR_MODE_DEFAULT, BlendingMode = VTK_TEXTURE_BLENDING_MODE_NONE,
      Mipmap = False, Repeat = True, EdgeClamp = False, Interpolate = False,
      InputData = None\<rparr>"

definition sample_mirrored :: vtkGLTFTexture where
  "sample_mirrored =
     \<lparr>Sampler = \<lparr>MagFilter = LINEAR, MinFilter = LINEAR_MIPMAP_LINEAR,
                 WrapS = MIRRORED_REPEAT, WrapT = MIRRORED_REPEAT\<rparr>,
      Image = Some 5\<rparr>"

section \<open>Resolving an identifier\<close>

lemma sample_lookup:
  "GetObjectAtId sample_scene 1 = Some (new_instance vtkRenderWindow (Some 7))"
  "GetObjectAtId sample_scene 2 = Some (new_instance vtkRenderWindow None)"
  "GetObjectAtId sample_scene 3 = Some (new_instance vtkRenderer None)"
  "GetObjectAtId sample_scene 4 = Some (new_instance vtkObjectBase None)"
  "GetObjectAtId sample_scene 999 = None"
  by (simp_all add: GetObjectAtId_def sample_scene_def)

lemma SafeDownCast_None [simp]: "SafeDownCast t None = None"
  by (simp add: SafeDownCast_def)

lemma SafeDownCast_Some:
  "SafeDownCast t p = Some obj \<longleftrightarrow> p = Some obj \<and> IsA (ClassOf obj) t"
  by (cases p) (auto simp: SafeDownCast_def)

lemma sample_casts:
  "SafeDownCast vtkRenderWindow (GetObjectAtId sample_scene 1) =
     Some (new_instance vtkRenderWindow (Some 7))"
  "SafeDownCast vtkRenderWindow (GetObjectAtId sample_scene 2) =
     Some (new_instance vtkRenderWindow None)"
  "SafeDownCast vtkRenderWindow (GetObjectAtId sample_scene 3) = None"
  "SafeDownCast vtkRenderWindow (GetObjectAtId sample_scene 999) = None"
  "SafeDownCast vtkRenderer (GetObjectAtId sample_scene 3) = Some (new_instance vtkRenderer None)"
  "SafeDownCast vtkRenderer (GetObjectAtId sample_scene 1) = None"
  "SafeDownCast vtkObject (GetObjectAtId sample_scene 1) =
     Some (new_instance vtkRenderWindow (Some 7))"
  "SafeDownCast vtkObject (GetObjectAtId sample_scene 4) = None"
  "SafeDownCast vtkObject (GetObjectAtId sample_scene 999) = None"
  by (simp_all add: sample_lookup SafeDownCast_def new_instance_def)

lemma sample_interactors:
  "GetInteractor (new_instance vtkRenderWindow (Some 7)) = Some 7"
  "GetInteractor (new_instance vtkRenderWindow None) = None"
  by (simp_all add: GetInteractor_def new_instance_def)

lemma sample_effects: "Effects sample_scene = []"
  by (simp add: sample_scene_def)

lemma cast_after_store:
  assumes "SafeDownCast vtkObject (GetObjectAtId s identifier) = Some object"
    and "ClassOf object' = ClassOf object"
  shows "SafeDownCast vtkObject
           (GetObjectAtId (s\<lparr>Objects := (Objects s)(identifier \<mapsto> object')\<rparr>) identifier) =
         Some object'"
  using assms by (simp add: SafeDownCast_Some GetObjectAtId_def)

section \<open>Faults\<close>

text \<open>
  Five of the seven operations return on every input; the two event-loop operations
  fault exactly on a render window that has no interactor.
\<close>

lemma operations_without_fault:
  "\<exists>r. SetSize s identifier width height = Inr r"
  "\<exists>r. Render s identifier = Inr r"
  "\<exists>r. ResetCamera s identifier = Inr r"
  "\<exists>r. AddObserver T s identifier eventName callback = Inr r"
  "\<exists>r. RemoveObserver s identifier tag = Inr r"
  by (auto simp add: SetSize_def Render_def ResetCamera_def AddObserver_def
      RemoveObserver_def vtkObject_AddObserver_def Let_def split: option.splits)

lemma StartEventLoop_fault_iff:
  "StartEventLoop s identifier = Inl NullPointerDereference \<longleftrightarrow>
     (\<exists>renderWindow.
        SafeDownCast vtkRenderWindow (GetObjectAtId s identifier) = Some renderWindow \<and>
        GetInteractor renderWindow = None)"
  by (auto simp add: StartEventLoop_def GetObjectAtId_def Let_def split: option.splits)

lemma StopEventLoop_fault_iff:
  "StopEventLoop s identifier = Inl NullPointerDereference \<longleftrightarrow>
     (\<exists>renderWindow.
        SafeDownCast vtkRenderWindow (GetObjectAtId s identifier) = Some renderWindow \<and>
        GetInteractor renderWindow = None)"
  by (auto simp add: StopEventLoop_def Let_def split: option.splits)

text \<open>
  C1. Every boundary operation is to return a boolean or the zero token on a bad
  identifier, and never to go through an invalid reference, in particular
  \<^verbatim>\<open>StartEventLoop\<close> and \<^verbatim>\<open>StopEventLoop\<close> on a render window with no interactor.
  The source does not do that: in the sample scene identifier 2 names a render window
  whose \<^verbatim>\<open>GetInteractor()\<close> is null, and both operations call
  \<^verbatim>\<open>GetObjectDescription()\<close> through that null pointer. \<^verbatim>\<open>SetSize\<close>, on the same
  input, tests the interactor and returns false.
\<close>

theorem event_loop_null_interactor:
  "StartEventLoop sample_scene 2 = Inl NullPointerDereference
   \<and> StopEventLoop sample_scene 2 = Inl NullPointerDereference
   \<and> SetSize sample_scene 2 640 480 = Inr (False, sample_scene)"
  by (simp add: StartEventLoop_def StopEventLoop_def SetSize_def GetObjectAtId_def
      sample_scene_def SafeDownCast_def new_instance_def GetInteractor_def)

section \<open>Resizing, rendering, resetting the camera\<close>

text \<open>
  C4. \<^verbatim>\<open>SetSize(identifier, width, height)\<close> returns true and calls
  \<^verbatim>\<open>UpdateSize(width, height)\<close> on the interactor when the identifier resolves to a render
  window with an attached interactor, and only then: on a render window without an
  interactor, and on an identifier that does not resolve to a render window, it returns
  false and the scene, the log of native calls included, is as it was.
\<close>

theorem SetSize_resizes_iff_interactor:
  "(\<forall>renderWindow iren.
      SafeDownCast vtkRenderWindow (GetObjectAtId s identifier) = Some renderWindow \<and>
      GetInteractor renderWindow = Some iren \<longrightarrow>
      SetSize s identifier width height =
        Inr (True, s\<lparr>Effects := Effects s @ [Native_UpdateSize iren width height]\<rparr>))
   \<and> (\<forall>renderWindow.
      SafeDownCast vtkRenderWindow (GetObjectAtId s identifier) = Some renderWindow \<and>
      GetInteractor renderWindow = None \<longrightarrow>
      SetSize s identifier width height = Inr (False, s))
   \<and> (SafeDownCast vtkRenderWindow (GetObjectAtId s identifier) = None \<longrightarrow>
      SetSize s identifier width height = Inr (False, s))"
  by (simp add: SetSize_def emit_def)

theorem SetSize_resizes_iff_interactor_witness:
  "SetSize sample_scene 1 640 480 =
     Inr (True, sample_scene\<lparr>Effects := [Native_UpdateSize 7 640 480]\<rparr>)
   \<and> SetSize sample_scene 2 640 480 = Inr (False, sample_scene)
   \<and> SetSize sample_scene 999 640 480 = Inr (False, sample_scene)"
  using SetSize_resizes_iff_interactor [of sample_scene 1 640 480]
    SetSize_resizes_iff_interactor [of sample_scene 2 640 480]
    SetSize_resizes_iff_interactor [of sample_scene 999 640 480]
  by (simp add: sample_casts sample_interactors sample_effects)

text \<open>
  C6. When the identifier does not resolve to a render window, \<^verbatim>\<open>Render\<close> returns false
  and leaves the scene as it was: no native call is logged. The same holds of
  \<^verbatim>\<open>ResetCamera\<close> and a renderer. An identifier that was never issued has no entry in
  the table; on such an identifier every operation reports a miss (false, or the zero
  token), and none but \<^verbatim>\<open>StartEventLoop\<close>, which clears the global flag first, changes
  the scene.
\<close>

theorem Render_ResetCamera_miss:
  "(SafeDownCast vtkRenderWindow (GetObjectAtId s identifier) = None \<longrightarrow>
      Render s identifier = Inr (False, s))
   \<and> (SafeDownCast vtkRenderer (GetObjectAtId s identifier) = None \<longrightarrow>
      ResetCamera s identifier = Inr (False, s))
   \<and> (GetObjectAtId s identifier = None \<longrightarrow>
      SetSize s identifier width height = Inr (False, s) \<and>
      Render s identifier = Inr (False, s) \<and>
      ResetCamera s identifier = Inr (False, s) \<and>
      StartEventLoop s identifier = Inr (False, s\<lparr>InteractorManagesTheEventLoop := False\<rparr>) \<and>
      StopEventLoop s identifier = Inr (False, s) \<and>
      AddObserver T s identifier eventName callback = Inr (0, s) \<and>
      RemoveObserver s identifier tag = Inr (False, s))"
  by (simp add: Render_def ResetCamera_def SetSize_def StartEventLoop_def
      StopEventLoop_def AddObserver_def RemoveObserver_def GetObjectAtId_def)

theorem Render_ResetCamera_miss_witness:
  "Render sample_scene 3 = Inr (False, sample_scene)
   \<and> ResetCamera sample_scene 1 = Inr (False, sample_scene)
   \<and> SetSize sample_scene 999 640 480 = Inr (False, sample_scene)
   \<and> Render sample_scene 999 = Inr (False, sample_scene)
   \<and> ResetCamera sample_scene 999 = Inr (False, sample_scene)
   \<and> StartEventLoop sample_scene 999 =
       Inr (False, sample_scene\<lparr>InteractorManagesTheEventLoop := False\<rparr>)
   \<and> StopEventLoop sample_scene 999 = Inr (False, sample_scene)
   \<and> AddObserver sample_events sample_scene 999 ''StartEvent'' 11 = Inr (0, sample_scene)
   \<and> RemoveObserver sample_scene 999 1 = Inr (False, sample_scene)"
proof -
  note window = Render_ResetCamera_miss
    [of sample_scene 3 640 480 sample_events "''StartEvent''" 11 1,
      THEN conjunct1, rule_format, OF sample_casts(3)]
  note renderer = Render_ResetCamera_miss
    [of sample_scene 1 640 480 sample_events "''StartEvent''" 11 1,
      THEN conjunct2, THEN conjunct1, rule_format, OF sample_casts(6)]
  note unknown = Render_ResetCamera_miss
    [of sample_scene 999 640 480 sample_events "''StartEvent''" 11 1,
      THEN conjunct2, THEN conjunct2, rule_format, OF sample_lookup(5)]
  from window renderer unknown show ?thesis by simp
qed

section \<open>The event loop and the global flag\<close>

text \<open>
  C9. \<^verbatim>\<open>StartEventLoop\<close> clears \<^verbatim>\<open>InteractorManagesTheEventLoop\<close> before it resolves
  the identifier: what the call does is what it does from a scene whose flag is already
  clear. On an identifier that does not resolve to a render window the call returns
  false and the flag is the one thing it changed; and whenever the call returns, the
  flag is clear, whatever it was before.
\<close>

theorem StartEventLoop_clears_flag:
  "StartEventLoop s identifier =
     StartEventLoop (s\<lparr>InteractorManagesTheEventLoop := False\<rparr>) identifier
   \<and> (SafeDownCast vtkRenderWindow (GetObjectAtId s identifier) = None \<longrightarrow>
        StartEventLoop s identifier =
          Inr (False, s\<lparr>InteractorManagesTheEventLoop := False\<rparr>))
   \<and> (\<forall>b s'. StartEventLoop s identifier = Inr (b, s') \<longrightarrow>
        \<not> InteractorManagesTheEventLoop s')"
  by (auto simp add: StartEventLoop_def GetObjectAtId_def emit_def Let_def
      split: option.splits)

theorem StartEventLoop_clears_flag_witness:
  "InteractorManagesTheEventLoop sample_scene
   \<and> StartEventLoop sample_scene 3 =
       Inr (False, sample_scene\<lparr>InteractorManagesTheEventLoop := False\<rparr>)
   \<and> \<not> InteractorManagesTheEventLoop
         (sample_scene\<lparr>InteractorManagesTheEventLoop := False\<rparr>)"
proof -
  have before: "InteractorManagesTheEventLoop sample_scene"
    by (simp add: sample_scene_def)
  note returned = StartEventLoop_clears_flag
    [of sample_scene 3, THEN conjunct2, THEN conjunct1, rule_format, OF sample_casts(3)]
  note cleared = StartEventLoop_clears_flag
    [of sample_scene 3, THEN conjunct2, THEN conjunct2, rule_format, OF returned]
  from before returned cleared show ?thesis by blast
qed

text \<open>
  C3, as the spec states it: the flag is disabled for the lifetime of the call only, and
  holds its previous value once \<^verbatim>\<open>StartEventLoop\<close> has returned. The source never
  writes the flag back. In the sample scene the flag is set; after the call on
  identifier 1, which starts the loop of interactor 7 and returns true, it is clear, and
  so it is after the call on the unknown identifier 999.
\<close>

theorem StartEventLoop_flag_not_restored:
  "InteractorManagesTheEventLoop sample_scene
   \<and> StartEventLoop sample_scene 1 =
       Inr (True, sample_scene\<lparr>InteractorManagesTheEventLoop := False,
                               Effects := [Cout_Started 1 7, Native_Start 7]\<rparr>)
   \<and> \<not> InteractorManagesTheEventLoop
         (sample_scene\<lparr>InteractorManagesTheEventLoop := False,
                        Effects := [Cout_Started 1 7, Native_Start 7]\<rparr>)
   \<and> StartEventLoop sample_scene 999 =
       Inr (False, sample_scene\<lparr>InteractorManagesTheEventLoop := False\<rparr>)"
  by (simp add: StartEventLoop_def GetObjectAtId_def sample_scene_def SafeDownCast_def
      new_instance_def GetInteractor_def emit_def)

text \<open>
  C3, amended: the disabling is not scoped to the call. Whenever \<^verbatim>\<open>StartEventLoop\<close>
  returns, the flag is false, whatever value it had before the call.
\<close>

theorem StartEventLoop_leaves_flag_false:
  assumes "StartEventLoop s identifier = Inr (b, s')"
  shows "\<not> InteractorManagesTheEventLoop s'"
  using assms
  by (auto simp add: StartEventLoop_def emit_def Let_def split: option.splits)

theorem StartEventLoop_leaves_flag_false_witness:
  "StartEventLoop sample_scene 999 =
       Inr (False, sample_scene\<lparr>InteractorManagesTheEventLoop := False\<rparr>)
   \<and> \<not> InteractorManagesTheEventLoop (sample_scene\<lparr>InteractorManagesTheEventLoop := False\<rparr>)"
proof -
  have returned: "StartEventLoop sample_scene 999 =
       Inr (False, sample_scene\<lparr>InteractorManagesTheEventLoop := False\<rparr>)"
    by (simp add: StartEventLoop_def GetObjectAtId_def sample_scene_def)
  from returned StartEventLoop_leaves_flag_false [OF returned] show ?thesis by blast
qed

section \<open>Observers\<close>

lemma filter_fresh_tag:
  "list_all (\<lambda>ob. Tag ob < n) obs \<Longrightarrow> filter (\<lambda>ob. Tag ob \<noteq> n) obs = obs"
  by (induction obs) auto

text \<open>The tags in use stay below the counter.\<close>

lemma tags_fresh_new: "tags_fresh (new_instance c iren)"
  by (simp add: tags_fresh_def new_instance_def)

lemma tags_fresh_AddObserver:
  assumes "tags_fresh obj"
  shows "tags_fresh (snd (vtkObject_AddObserver T obj event clientData))"
proof -
  have "list_all (\<lambda>ob. Tag ob < Suc (Count obj)) (Observers obj)"
    using assms by (auto simp add: tags_fresh_def list_all_iff)
  then show ?thesis
    by (simp add: tags_fresh_def vtkObject_AddObserver_def)
qed

lemma tags_fresh_RemoveObserver:
  assumes "tags_fresh obj"
  shows "tags_fresh (vtkObject_RemoveObserver obj tag)"
  using assms by (auto simp add: tags_fresh_def vtkObject_RemoveObserver_def list_all_iff)

text \<open>What the two observer operations do when the identifier resolves.\<close>

lemma AddObserver_hit:
  assumes "SafeDownCast vtkObject (GetObjectAtId s identifier) = Some object"
  shows "AddObserver T s identifier eventName callback =
     Inr (Count object,
       s\<lparr>Objects := (Objects s)(identifier \<mapsto>
          object\<lparr>Observers := Observers object @
              [\<lparr>Tag = Count object, Event = GetEventIdFromString T eventName,
                ClientData = \<lparr>bridge_f = callback, SenderId = identifier\<rparr>\<rparr>],
            Count := Suc (Count object)\<rparr>)\<rparr>)"
  using assms by (simp add: AddObserver_def vtkObject_AddObserver_def)

lemma RemoveObserver_hit:
  assumes "SafeDownCast vtkObject (GetObjectAtId s identifier) = Some object"
  shows "RemoveObserver s identifier tag =
     Inr (True,
       s\<lparr>Objects := (Objects s)(identifier \<mapsto>
          object\<lparr>Observers := filter (\<lambda>ob. Tag ob \<noteq> tag) (Observers object)\<rparr>)\<rparr>)"
  using assms by (simp add: RemoveObserver_def vtkObject_RemoveObserver_def)

lemma sample_AddObserver:
  "AddObserver sample_events sample_scene 1 ''StartEvent'' 11 = Inr (1, sample_subscribed)"
  using AddObserver_hit [OF sample_casts(7), of sample_events "''StartEvent''" 11]
  by (simp add: new_instance_def sample_subscribed_def sample_events_def numeral_2_eq_2)

lemma sample_subscribed_cast:
  "SafeDownCast vtkObject (GetObjectAtId sample_subscribed 1) =
     Some \<lparr>ClassOf = vtkRenderWindow, Interactor = Some 7,
           Observers = [\<lparr>Tag = 1, Event = 3, ClientData = \<lparr>bridge_f = 11, SenderId = 1\<rparr>\<rparr>],
           Count = 2\<rparr>"
  by (simp add: sample_subscribed_def GetObjectAtId_def SafeDownCast_def)

lemma sample_unsubscribed_cast:
  "SafeDownCast vtkObject (GetObjectAtId sample_unsubscribed 1) =
     Some \<lparr>ClassOf = vtkRenderWindow, Interactor = Some 7, Observers = [], Count = 2\<rparr>"
  by (simp add: sample_unsubscribed_def GetObjectAtId_def SafeDownCast_def)

text \<open>
  C10. \<^verbatim>\<open>RemoveObserver(identifier, tag)\<close> always returns, and what it returns is
  whether the identifier resolved to a \<^verbatim>\<open>vtkObject\<close>: the tag plays no part in the
  result, be it a tag of a live subscription, one already removed, or one never issued.
\<close>

theorem RemoveObserver_result:
  "\<exists>s'. RemoveObserver s identifier tag =
     Inr (SafeDownCast vtkObject (GetObjectAtId s identifier) \<noteq> None, s')"
  by (cases "SafeDownCast vtkObject (GetObjectAtId s identifier)")
    (simp_all add: RemoveObserver_def)

theorem RemoveObserver_result_witness:
  "(\<exists>s'. RemoveObserver sample_scene 1 42 = Inr (True, s'))
   \<and> (\<exists>s'. RemoveObserver sample_unsubscribed 1 1 = Inr (True, s'))
   \<and> (\<exists>s'. RemoveObserver sample_scene 999 42 = Inr (False, s'))"
  using RemoveObserver_result [of sample_scene 1 42]
    RemoveObserver_result [of sample_unsubscribed 1 1]
    RemoveObserver_result [of sample_scene 999 42]
  by (simp add: sample_casts sample_unsubscribed_cast)

text \<open>
  C7. When the identifier does not resolve to a \<^verbatim>\<open>vtkObject\<close>, \<^verbatim>\<open>AddObserver\<close> returns
  the zero token without a fault and the scene is as it was: nothing is subscribed. When
  it resolves (to an object whose tags in use are below its counter), the call returns a
  tag that is not zero, the object has one more subscription slot, which carries that
  tag, the event and the bridge for \<open>(callback, identifier)\<close>, and \<^verbatim>\<open>RemoveObserver\<close> with
  that tag returns true and leaves the object with the subscriptions it had before.
\<close>

theorem AddObserver_token:
  "(SafeDownCast vtkObject (GetObjectAtId s identifier) = None \<longrightarrow>
      AddObserver T s identifier eventName callback = Inr (0, s))
   \<and> (\<forall>object.
        SafeDownCast vtkObject (GetObjectAtId s identifier) = Some object \<and>
        tags_fresh object \<longrightarrow>
        (\<exists>tag s1 s2.
           AddObserver T s identifier eventName callback = Inr (tag, s1) \<and> tag \<noteq> 0 \<and>
           map_option Observers (GetObjectAtId s1 identifier) =
             Some (Observers object @
                    [\<lparr>Tag = tag, Event = GetEventIdFromString T eventName,
                      ClientData = \<lparr>bridge_f = callback, SenderId = identifier\<rparr>\<rparr>]) \<and>
           RemoveObserver s1 identifier tag = Inr (True, s2) \<and>
           map_option Observers (GetObjectAtId s2 identifier) = Some (Observers object)))"
proof (intro conjI allI impI)
  assume "SafeDownCast vtkObject (GetObjectAtId s identifier) = None"
  then show "AddObserver T s identifier eventName callback = Inr (0, s)"
    by (simp add: AddObserver_def)
next
  fix object
  assume "SafeDownCast vtkObject (GetObjectAtId s identifier) = Some object \<and>
    tags_fresh object"
  then have hit: "SafeDownCast vtkObject (GetObjectAtId s identifier) = Some object"
    and pos: "0 < Count object"
    and fresh: "list_all (\<lambda>ob. Tag ob < Count object) (Observers object)"
    by (simp_all add: tags_fresh_def)
  define slot where "slot = \<lparr>Tag = Count object, Event = GetEventIdFromString T eventName,
      ClientData = \<lparr>bridge_f = callback, SenderId = identifier\<rparr>\<rparr>"
  define object' where
    "object' = object\<lparr>Observers := Observers object @ [slot], Count := Suc (Count object)\<rparr>"
  define s1 where "s1 = s\<lparr>Objects := (Objects s)(identifier \<mapsto> object')\<rparr>"
  define s2 where "s2 = s1\<lparr>Objects := (Objects s1)(identifier \<mapsto>
      object'\<lparr>Observers := filter (\<lambda>ob. Tag ob \<noteq> Count object) (Observers object')\<rparr>)\<rparr>"
  have add: "AddObserver T s identifier eventName callback = Inr (Count object, s1)"
    using AddObserver_hit [OF hit] by (simp add: s1_def object'_def slot_def)
  have hit1: "SafeDownCast vtkObject (GetObjectAtId s1 identifier) = Some object'"
    unfolding s1_def by (rule cast_after_store [OF hit]) (simp add: object'_def)
  have obs1: "map_option Observers (GetObjectAtId s1 identifier) =
      Some (Observers object @ [slot])"
    by (simp add: s1_def GetObjectAtId_def object'_def)
  have rem: "RemoveObserver s1 identifier (Count object) = Inr (True, s2)"
    using RemoveObserver_hit [OF hit1] by (simp add: s2_def)
  have "filter (\<lambda>ob. Tag ob \<noteq> Count object) (Observers object') = Observers object"
    using filter_fresh_tag [OF fresh] by (simp add: object'_def slot_def)
  then have obs2: "map_option Observers (GetObjectAtId s2 identifier) =
      Some (Observers object)"
    by (simp add: s2_def GetObjectAtId_def)
  from add pos obs1 rem obs2
  show "\<exists>tag s1 s2.
           AddObserver T s identifier eventName callback = Inr (tag, s1) \<and> tag \<noteq> 0 \<and>
           map_option Observers (GetObjectAtId s1 identifier) =
             Some (Observers object @
                    [\<lparr>Tag = tag, Event = GetEventIdFromString T eventName,
                      ClientData = \<lparr>bridge_f = callback, SenderId = identifier\<rparr>\<rparr>]) \<and>
           RemoveObserver s1 identifier tag = Inr (True, s2) \<and>
           map_option Observers (GetObjectAtId s2 identifier) = Some (Observers object)"
    unfolding slot_def by (intro exI [of _ "Count object"] exI [of _ s1] exI [of _ s2]) simp
qed

theorem AddObserver_token_witness:
  "AddObserver sample_events sample_scene 999 ''StartEvent'' 11 = Inr (0, sample_scene)
   \<and> AddObserver sample_events sample_scene 4 ''StartEvent'' 11 = Inr (0, sample_scene)
   \<and> (\<exists>tag s1 s2.
         AddObserver sample_events sample_scene 1 ''StartEvent'' 11 = Inr (tag, s1) \<and>
         tag \<noteq> 0 \<and>
         map_option Observers (GetObjectAtId s1 1) =
           Some [\<lparr>Tag = tag, Event = 3, ClientData = \<lparr>bridge_f = 11, SenderId = 1\<rparr>\<rparr>] \<and>
         RemoveObserver s1 1 tag = Inr (True, s2) \<and>
         map_option Observers (GetObjectAtId s2 1) = Some [])"
proof -
  note unknown = AddObserver_token
    [of sample_scene 999 sample_events "''StartEvent''" 11,
      THEN conjunct1, rule_format, OF sample_casts(9)]
  note no_object = AddObserver_token
    [of sample_scene 4 sample_events "''StartEvent''" 11,
      THEN conjunct1, rule_format, OF sample_casts(8)]
  note window = AddObserver_token
    [of sample_scene 1 sample_events "''StartEvent''" 11,
      THEN conjunct2, rule_format, OF conjI, OF sample_casts(7) tags_fresh_new]
  have "GetEventIdFromString sample_events ''StartEvent'' = 3"
    by (simp add: sample_events_def)
  with window have "\<exists>tag s1 s2.
         AddObserver sample_events sample_scene 1 ''StartEvent'' 11 = Inr (tag, s1) \<and>
         tag \<noteq> 0 \<and>
         map_option Observers (GetObjectAtId s1 1) =
           Some [\<lparr>Tag = tag, Event = 3, ClientData = \<lparr>bridge_f = 11, SenderId = 1\<rparr>\<rparr>] \<and>
         RemoveObserver s1 1 tag = Inr (True, s2) \<and>
         map_option Observers (GetObjectAtId s2 1) = Some []"
    by (simp add: new_instance_def)
  with unknown no_object show ?thesis by blast
qed

text \<open>
  C2, as the spec states it: of two calls of \<^verbatim>\<open>RemoveObserver\<close> with a tag that
  \<^verbatim>\<open>AddObserver\<close> returned, the first returns true and the second false. In the sample
  scene \<^verbatim>\<open>AddObserver(1, "StartEvent", 11)\<close> returns tag 1; the first removal of tag 1
  returns true, and so does the second.
\<close>

theorem RemoveObserver_second_call_true:
  "AddObserver sample_events sample_scene 1 ''StartEvent'' 11 = Inr (1, sample_subscribed)
   \<and> RemoveObserver sample_subscribed 1 1 = Inr (True, sample_unsubscribed)
   \<and> RemoveObserver sample_unsubscribed 1 1 = Inr (True, sample_unsubscribed)
   \<and> RemoveObserver sample_unsubscribed 1 1 \<noteq> Inr (False, sample_unsubscribed)"
  using RemoveObserver_hit [OF sample_subscribed_cast, of 1]
    RemoveObserver_hit [OF sample_unsubscribed_cast, of 1]
  by (simp add: sample_AddObserver) (simp add: sample_subscribed_def sample_unsubscribed_def)

text \<open>
  C2, amended: for an identifier that resolves to a \<^verbatim>\<open>vtkObject\<close> and a tag returned by
  \<^verbatim>\<open>AddObserver\<close> on it, two calls of \<^verbatim>\<open>RemoveObserver\<close> in succession both return
  true; the second leaves the scene as the first left it.
\<close>

theorem RemoveObserver_twice:
  assumes "SafeDownCast vtkObject (GetObjectAtId s identifier) = Some object"
    and "AddObserver T s identifier eventName callback = Inr (tag, s1)"
  shows "\<exists>s2. RemoveObserver s1 identifier tag = Inr (True, s2) \<and>
              RemoveObserver s2 identifier tag = Inr (True, s2)"
proof -
  define object1 where "object1 = object\<lparr>Observers := Observers object @
      [\<lparr>Tag = Count object, Event = GetEventIdFromString T eventName,
        ClientData = \<lparr>bridge_f = callback, SenderId = identifier\<rparr>\<rparr>],
      Count := Suc (Count object)\<rparr>"
  define object2 where
    "object2 = object1\<lparr>Observers := filter (\<lambda>ob. Tag ob \<noteq> tag) (Observers object1)\<rparr>"
  define s2 where "s2 = s1\<lparr>Objects := (Objects s1)(identifier \<mapsto> object2)\<rparr>"
  have s1: "s1 = s\<lparr>Objects := (Objects s)(identifier \<mapsto> object1)\<rparr>"
    using AddObserver_hit [OF assms(1), of T eventName callback] assms(2)
    by (simp add: object1_def)
  have hit1: "SafeDownCast vtkObject (GetObjectAtId s1 identifier) = Some object1"
    unfolding s1 by (rule cast_after_store [OF assms(1)]) (simp add: object1_def)
  have first: "RemoveObserver s1 identifier tag = Inr (True, s2)"
    using RemoveObserver_hit [OF hit1] by (simp add: s2_def object2_def)
  have hit2: "SafeDownCast vtkObject (GetObjectAtId s2 identifier) = Some object2"
    unfolding s2_def by (rule cast_after_store [OF hit1]) (simp add: object2_def)
  have "RemoveObserver s2 identifier tag = Inr (True, s2)"
    using RemoveObserver_hit [OF hit2, of tag] by (simp add: s2_def object2_def)
  with first show ?thesis by blast
qed

theorem RemoveObserver_twice_witness:
  "\<exists>s2. RemoveObserver sample_subscribed 1 1 = Inr (True, s2) \<and>
         RemoveObserver s2 1 1 = Inr (True, s2)"
  by (rule RemoveObserver_twice [OF sample_casts(7) sample_AddObserver])

section \<open>Event delivery\<close>

text \<open>
  C5. A registration made by \<^verbatim>\<open>AddObserver(identifier, eventName, callback)\<close> on an
  identifier that resolves invokes nothing by itself. In the scene it leaves, a native
  firing of the subscribed event on the object makes the calls it would have made
  without the registration and, for the registration, exactly one more: the external
  callback with the identifier passed to \<^verbatim>\<open>AddObserver\<close> and the canonical name of the
  event that fired. A firing of any other event makes the calls it would have made
  without the registration. The calls are made within the firing: they are in the log
  when \<open>InvokeEvent\<close> returns.
\<close>

theorem bridge_delivers_once:
  assumes "SafeDownCast vtkObject (GetObjectAtId s identifier) = Some object"
    and "AddObserver T s identifier eventName callback = Inr (tag, s1)"
  shows "Effects s1 = Effects s
    \<and> fired T s1 identifier (GetEventIdFromString T eventName) =
        fired T s identifier (GetEventIdFromString T eventName) @
          [ExternalCallback callback identifier
             (GetStringFromEventId T (GetEventIdFromString T eventName))]
    \<and> (\<forall>eid. eid \<noteq> GetEventIdFromString T eventName \<longrightarrow>
          fired T s1 identifier eid = fired T s identifier eid)
    \<and> (\<forall>eid. Effects (InvokeEvent T s1 identifier eid) =
          Effects s1 @ fired T s1 identifier eid)"
proof -
  define object1 where "object1 = object\<lparr>Observers := Observers object @
      [\<lparr>Tag = Count object, Event = GetEventIdFromString T eventName,
        ClientData = \<lparr>bridge_f = callback, SenderId = identifier\<rparr>\<rparr>],
      Count := Suc (Count object)\<rparr>"
  have s1: "s1 = s\<lparr>Objects := (Objects s)(identifier \<mapsto> object1)\<rparr>"
    using AddObserver_hit [OF assms(1), of T eventName callback] assms(2)
    by (simp add: object1_def)
  have hit1: "SafeDownCast vtkObject (GetObjectAtId s1 identifier) = Some object1"
    unfolding s1 by (rule cast_after_store [OF assms(1)]) (simp add: object1_def)
  have before: "fired T s identifier eid =
      map (\<lambda>ob. bridge_callback T eid (ClientData ob))
        (filter (\<lambda>ob. Event ob = eid) (Observers object))" for eid
    using assms(1) by (simp add: fired_def)
  have after: "fired T s1 identifier eid =
      map (\<lambda>ob. bridge_callback T eid (ClientData ob))
        (filter (\<lambda>ob. Event ob = eid) (Observers object1))" for eid
    using hit1 by (simp add: fired_def)
  have silent: "Effects s1 = Effects s"
    by (simp add: s1)
  have once: "fired T s1 identifier (GetEventIdFromString T eventName) =
        fired T s identifier (GetEventIdFromString T eventName) @
          [ExternalCallback callback identifier
             (GetStringFromEventId T (GetEventIdFromString T eventName))]"
    by (simp add: before after object1_def bridge_callback_def)
  have others: "fired T s1 identifier eid = fired T s identifier eid"
    if "eid \<noteq> GetEventIdFromString T eventName" for eid
    using that by (auto simp add: before after object1_def)
  have within: "Effects (InvokeEvent T s1 identifier eid) =
      Effects s1 @ fired T s1 identifier eid" for eid
    by (simp add: InvokeEvent_def)
  from silent once others within show ?thesis by blast
qed

theorem bridge_delivers_once_witness:
  "Effects (InvokeEvent sample_events sample_subscribed 1 3) =
     [ExternalCallback 11 1 ''StartEvent'']
   \<and> Effects (InvokeEvent sample_events sample_subscribed 1 4) = []"
proof -
  have quiet: "fired sample_events sample_scene 1 eid = []" for eid
    by (simp add: fired_def sample_casts new_instance_def)
  have names: "GetEventIdFromString sample_events ''StartEvent'' = 3"
    "GetStringFromEventId sample_events 3 = ''StartEvent''"
    by (simp_all add: sample_events_def)
  from bridge_delivers_once [OF sample_casts(7) sample_AddObserver]
  show ?thesis
    by (simp add: sample_effects quiet names)
qed

section \<open>Unsupported sampler settings\<close>

text \<open>
  C8. When neither \<^verbatim>\<open>WrapS\<close> nor \<^verbatim>\<open>WrapT\<close> is \<^verbatim>\<open>CLAMP_TO_EDGE\<close> or \<^verbatim>\<open>REPEAT\<close>,
  \<^verbatim>\<open>GetVTKTexture\<close> logs one warning and still returns a texture: its repeat and
  edge-clamp settings are those a new texture has, and its colour mode, blending mode
  and input are set as for any other sampler.
\<close>

theorem unsupported_wrap_warns:
  assumes "WrapS (Sampler this) \<noteq> CLAMP_TO_EDGE" and "WrapS (Sampler this) \<noteq> REPEAT"
    and "WrapT (Sampler this) \<noteq> CLAMP_TO_EDGE" and "WrapT (Sampler this) \<noteq> REPEAT"
  shows "\<exists>texture. GetVTKTexture fresh this =
            (texture, [''Mirrored texture wrapping is not supported!'']) \<and>
          Repeat texture = Repeat fresh \<and> EdgeClamp texture = EdgeClamp fresh \<and>
          ColorMode texture = VTK_COLOR_MODE_DIRECT_SCALARS \<and>
          BlendingMode texture = VTK_TEXTURE_BLENDING_MODE_MODULATE \<and>
          InputData texture = Image this"
  using assms by (simp add: GetVTKTexture_def Let_def)

theorem unsupported_wrap_warns_witness:
  "\<exists>texture. GetVTKTexture sample_fresh_texture sample_mirrored =
            (texture, [''Mirrored texture wrapping is not supported!'']) \<and>
          Repeat texture = True \<and> EdgeClamp texture = False \<and>
          ColorMode texture = VTK_COLOR_MODE_DIRECT_SCALARS \<and>
          BlendingMode texture = VTK_TEXTURE_BLENDING_MODE_MODULATE \<and>
          InputData texture = Some 5"
  using unsupported_wrap_warns [of sample_mirrored sample_fresh_texture]
  by (simp add: sample_mirrored_def sample_fresh_texture_def)

end
